theory Spec2Isabelle
  imports Main
begin

section \<open>JavaScript object lookup\<close>

text \<open>
  The configuration tables of the program are plain object literals indexed by a string
  (\<^verbatim>\<open>PHASE_AGENT_MAP[phase]\<close>, \<^verbatim>\<open>AGENTS[agentName]\<close>, \<^verbatim>\<open>phaseMap[args.agent_name]\<close>).
  Such a read first looks at the object's own properties, in the order they were written,
  and then at \<^verbatim>\<open>Object.prototype\<close>, whose members are functions, except \<^verbatim>\<open>__proto__\<close>,
  which reads as the prototype object itself. All inherited members are truthy.
\<close>

datatype 'a js_prop = Own 'a | Inherited string | Undefined

definition Object_prototype :: "string list" where
  "Object_prototype =
     [''constructor'', ''__defineGetter__'', ''__defineSetter__'', ''hasOwnProperty'',
      ''__lookupGetter__'', ''__lookupSetter__'', ''isPrototypeOf'', ''propertyIsEnumerable'',
      ''toString'', ''valueOf'', ''__proto__'', ''toLocaleString'']"

definition js_get :: "(string \<times> 'a) list \<Rightarrow> string \<Rightarrow> 'a js_prop" where
  "js_get obj k =
     (case map_of obj k of
        Some v \<Rightarrow> Own v
      | None \<Rightarrow> if k \<in> set Object_prototype then Inherited k else Undefined)"

text \<open>\<^verbatim>\<open>Array.prototype.indexOf\<close>: the first position of the element, or \<open>-1\<close>.\<close>

fun indexOf :: "'a list \<Rightarrow> 'a \<Rightarrow> int" where
  "indexOf [] x = - 1"
| "indexOf (y # ys) x =
     (if y = x then 0 else (let i = indexOf ys x in if i = - 1 then - 1 else i + 1))"


section \<open>Phase table (AgentConfig)\<close>

type_synonym PipelinePhase = string

record AgentDefinition =
  name :: string
  displayName :: string
  phase :: PipelinePhase
  reviewPhase :: PipelinePhase
  mdcFile :: string
  requiredInputs :: "string list"
  outputKey :: string
  defaultModel :: string

definition planner :: AgentDefinition where
  "planner = \<lparr> name = ''planner'', displayName = ''Planner'', phase = ''planning'',
     reviewPhase = ''plan_review'', mdcFile = ''planner.mdc'', requiredInputs = [],
     outputKey = ''planner'', defaultModel = ''claude-4.5-sonnet'' \<rparr>"

definition implementer :: AgentDefinition where
  "implementer = \<lparr> name = ''implementer'', displayName = ''Implementer'',
     phase = ''implementing'', reviewPhase = ''impl_review'', mdcFile = ''implementer.mdc'',
     requiredInputs = [''planner''], outputKey = ''implementer'',
     defaultModel = ''claude-4.6-opus'' \<rparr>"

definition reviewer :: AgentDefinition where
  "reviewer = \<lparr> name = ''reviewer'', displayName = ''Reviewer'', phase = ''reviewing'',
     reviewPhase = ''review_done'', mdcFile = ''reviewer.mdc'',
     requiredInputs = [''planner'', ''implementer''], outputKey = ''reviewer'',
     defaultModel = ''gpt-5.2'' \<rparr>"

definition test :: AgentDefinition where
  "test = \<lparr> name = ''test'', displayName = ''Tester'', phase = ''testing'',
     reviewPhase = ''completed'', mdcFile = ''test.mdc'',
     requiredInputs = [''planner'', ''implementer'', ''reviewer''], outputKey = ''test'',
     defaultModel = ''claude-4.5-sonnet'' \<rparr>"

definition AGENTS :: "(string \<times> AgentDefinition) list" where
  "AGENTS = [(''planner'', planner), (''implementer'', implementer),
             (''reviewer'', reviewer), (''test'', test)]"

definition PHASE_ORDER :: "PipelinePhase list" where
  "PHASE_ORDER = [''idle'', ''planning'', ''plan_review'', ''implementing'', ''impl_review'',
                  ''reviewing'', ''review_done'', ''testing'', ''completed'']"

definition PHASE_AGENT_MAP :: "(string \<times> string) list" where
  "PHASE_AGENT_MAP = [(''planning'', ''planner''), (''implementing'', ''implementer''),
                      (''reviewing'', ''reviewer''), (''testing'', ''test'')]"

definition REVIEW_PHASES :: "PipelinePhase list" where
  "REVIEW_PHASES = [''plan_review'', ''impl_review'', ''review_done'']"

text \<open>
  \<^verbatim>\<open>getAgentForPhase\<close>: \<^verbatim>\<open>agentName ? AGENTS[agentName] : undefined\<close>. A non-empty string is
  truthy. When the phase names a member of \<^verbatim>\<open>Object.prototype\<close> the first read is truthy
  too, and \<^verbatim>\<open>AGENTS\<close> is then indexed by that member's string conversion
  (\<^verbatim>\<open>function ...() { [native code] }\<close> or \<^verbatim>\<open>[object Object]\<close>), which is no key of any
  object here: the result is \<^verbatim>\<open>undefined\<close>.
\<close>

definition getAgentForPhase :: "PipelinePhase \<Rightarrow> AgentDefinition option" where
  "getAgentForPhase p =
     (case js_get PHASE_AGENT_MAP p of
        Own agentName \<Rightarrow>
          (if agentName \<noteq> [] then
             (case js_get AGENTS agentName of Own a \<Rightarrow> Some a | _ \<Rightarrow> None)
           else None)
      | Inherited k \<Rightarrow> None
      | Undefined \<Rightarrow> None)"

definition getNextPhaseAfterApproval :: "PipelinePhase \<Rightarrow> PipelinePhase" where
  "getNextPhaseAfterApproval p =
     (let idx = indexOf PHASE_ORDER p in
      if idx = - 1 \<or> idx \<ge> int (length PHASE_ORDER) - 1 then ''completed''
      else PHASE_ORDER ! nat (idx + 1))"

definition getRetryPhase :: "PipelinePhase \<Rightarrow> PipelinePhase" where
  "getRetryPhase p =
     (if p = ''plan_review'' then ''planning''
      else if p = ''impl_review'' then ''implementing''
      else if p = ''review_done'' then ''implementing''
      else if p = ''testing'' then ''implementing''
      else p)"


section \<open>JSON values and files\<close>

text \<open>
  The state record is kept as JSON text. The text layer itself (escapes, indentation) belongs
  to the platform's \<^verbatim>\<open>JSON.stringify\<close> and \<^verbatim>\<open>JSON.parse\<close>; a text is modelled up to what
  \<^verbatim>\<open>JSON.parse\<close> makes of it: either it is rejected, or it denotes a JSON value. An object
  is the list of its members in enumeration order.
\<close>

datatype json =
  JNull | JBool bool | JNum int | JStr string | JArr "json list" | JObj "(string \<times> json) list"

datatype jtext = NotJson | JsonText json

datatype error = Error string | TypeError string | SyntaxError | IOError | NotAPipelineState

definition JSON_parse :: "jtext \<Rightarrow> error + json" where
  "JSON_parse t = (case t of NotJson \<Rightarrow> Inl SyntaxError | JsonText j \<Rightarrow> Inr j)"

definition JSON_stringify :: "json \<Rightarrow> jtext" where
  "JSON_stringify j = JsonText j"

text \<open>A file that exists is readable or not (\<^verbatim>\<open>fs.readFileSync\<close> throws on the latter).\<close>

datatype 'a fsfile = Unreadable | Readable 'a

definition readFileSync :: "'a fsfile \<Rightarrow> error + 'a" where
  "readFileSync f = (case f of Unreadable \<Rightarrow> Inl IOError | Readable x \<Rightarrow> Inr x)"

text \<open>
  The persisted area \<^verbatim>\<open>.agent_pipeline/\<close>: the state file \<^verbatim>\<open>state.json\<close> and the directory
  \<^verbatim>\<open>outputs/\<close>, which holds one file \<^verbatim>\<open><agent>.md\<close> per agent name; each may be absent.
  The files of \<^verbatim>\<open>outputs/\<close> are keyed by the agent name, which stands for a single path
  component (see \<open>path_component\<close> below), and writes are taken to succeed: a full disk, a
  read-only file or a name that leads \<^verbatim>\<open>fs.writeFileSync\<close> to another directory are
  outside this model of the store.
\<close>

record store =
  stateFile :: "jtext fsfile option"
  outputsDir :: "(string \<rightharpoonup> string fsfile) option"


section \<open>Pipeline state (storage)\<close>

record HistoryEntry =
  phase :: string
  action :: string
  timestamp :: string
  detail :: "string option"

record PipelineState =
  currentPhase :: string
  taskDescription :: string
  outputs :: "(string \<times> string) list"
  history :: "HistoryEntry list"
  createdAt :: string
  updatedAt :: string

text \<open>
  The own keys of an object are enumerated in JavaScript's order: first the keys that are
  array indices (decimal numerals without leading zero, below \<open>2\<^sup>3\<^sup>2 - 1\<close>) by ascending value,
  then all other keys in the order of their creation. \<^verbatim>\<open>obj[k] = v\<close> keeps an existing
  member in its place and puts a new one where this order has it.
\<close>

definition digit_of :: "char \<Rightarrow> int option" where
  "digit_of c =
     (let n = (of_char c :: int) in if 48 \<le> n \<and> n \<le> 57 then Some (n - 48) else None)"

fun decimal :: "int \<Rightarrow> string \<Rightarrow> int option" where
  "decimal acc [] = Some acc"
| "decimal acc (c # cs) =
     (case digit_of c of None \<Rightarrow> None | Some d \<Rightarrow> decimal (10 * acc + d) cs)"

definition array_index :: "string \<Rightarrow> int option" where
  "array_index k =
     (case k of
        [] \<Rightarrow> None
      | c # cs \<Rightarrow>
          if c = CHR ''0'' \<and> cs \<noteq> [] then None
          else (case decimal 0 k of
                  None \<Rightarrow> None
                | Some n \<Rightarrow> if n < 4294967295 then Some n else None))"

fun js_replace :: "(string \<times> 'a) list \<Rightarrow> string \<Rightarrow> 'a \<Rightarrow> (string \<times> 'a) list" where
  "js_replace [] k v = []"
| "js_replace ((k', v') # kvs) k v =
     (if k' = k then (k, v) # kvs else (k', v') # js_replace kvs k v)"

fun js_insert_index :: "int \<Rightarrow> string \<Rightarrow> 'a \<Rightarrow> (string \<times> 'a) list \<Rightarrow> (string \<times> 'a) list" where
  "js_insert_index n k v [] = [(k, v)]"
| "js_insert_index n k v ((k', v') # kvs) =
     (case array_index k' of
        Some m \<Rightarrow>
          if m < n then (k', v') # js_insert_index n k v kvs else (k, v) # (k', v') # kvs
      | None \<Rightarrow> (k, v) # (k', v') # kvs)"

definition js_assign :: "(string \<times> 'a) list \<Rightarrow> string \<Rightarrow> 'a \<Rightarrow> (string \<times> 'a) list" where
  "js_assign obj k v =
     (if k \<in> set (map fst obj) then js_replace obj k v
      else (case array_index k of
              Some n \<Rightarrow> js_insert_index n k v obj
            | None \<Rightarrow> obj @ [(k, v)]))"

text \<open>
  \<^verbatim>\<open>state.outputs[k] = v\<close> for a string \<open>v\<close>: the key \<^verbatim>\<open>__proto__\<close> reaches the prototype
  setter, which ignores a string.
\<close>

definition js_set :: "(string \<times> string) list \<Rightarrow> string \<Rightarrow> string \<Rightarrow> (string \<times> string) list" where
  "js_set obj k v = (if k = ''__proto__'' then obj else js_assign obj k v)"

text \<open>
  What \<^verbatim>\<open>JSON.stringify\<close> makes of a state. A member whose value is \<^verbatim>\<open>undefined\<close> or a
  function is left out, hence the optional members.
\<close>

fun js_member :: "string \<Rightarrow> json option \<Rightarrow> (string \<times> json) list" where
  "js_member k None = []"
| "js_member k (Some j) = [(k, j)]"

definition entry_json :: "json option \<Rightarrow> string \<Rightarrow> string \<Rightarrow> string option \<Rightarrow> json" where
  "entry_json ph act ts det =
     JObj (js_member ''phase'' ph @ [(''action'', JStr act), (''timestamp'', JStr ts)]
           @ js_member ''detail'' (map_option JStr det))"

definition record_json ::
  "json option \<Rightarrow> string \<Rightarrow> (string \<times> string) list \<Rightarrow> json list \<Rightarrow> string \<Rightarrow> string \<Rightarrow> json" where
  "record_json ph task outs hist created updated =
     JObj (js_member ''currentPhase'' ph @
           [(''taskDescription'', JStr task),
            (''outputs'', JObj (map (\<lambda>(k, v). (k, JStr v)) outs)),
            (''history'', JArr hist),
            (''createdAt'', JStr created),
            (''updatedAt'', JStr updated)])"

definition json_of_entry :: "HistoryEntry \<Rightarrow> json" where
  "json_of_entry e = entry_json (Some (JStr (phase e))) (action e) (timestamp e) (detail e)"

definition json_of_state :: "PipelineState \<Rightarrow> json" where
  "json_of_state s =
     record_json (Some (JStr (currentPhase s))) (taskDescription s) (outputs s)
       (map json_of_entry (history s)) (createdAt s) (updatedAt s)"

text \<open>
  \<^verbatim>\<open>JSON.parse(raw) as PipelineState\<close> is an unchecked cast: the value returned is whatever
  the text denotes. The program reads the members of a state by name, so the value is a
  \<open>PipelineState\<close> when it is an object with exactly the members of one, in any order,
  each of its type (\<open>detail\<close> being optional in a history entry); any other JSON value is
  returned as it is. A state that was read and is written again is laid out by
  \<open>json_of_state\<close>; the code keeps the order in which it read the members, and both texts
  denote the same object.
\<close>

datatype stateval = WellTyped PipelineState | IllTyped json

fun members_of :: "json \<Rightarrow> (string \<times> json) list option" where
  "members_of (JObj kvs) = Some kvs"
| "members_of _ = None"

fun items_of :: "json \<Rightarrow> json list option" where
  "items_of (JArr js) = Some js"
| "items_of _ = None"

definition has_members :: "(string \<times> json) list \<Rightarrow> string list \<Rightarrow> bool" where
  "has_members kvs names =
     (length kvs = length names \<and> list_all (\<lambda>n. n \<in> set (map fst kvs)) names)"

definition str_member :: "(string \<times> json) list \<Rightarrow> string \<Rightarrow> string option" where
  "str_member kvs k = (case map_of kvs k of Some (JStr s) \<Rightarrow> Some s | _ \<Rightarrow> None)"

definition entry_of_json :: "json \<Rightarrow> HistoryEntry option" where
  "entry_of_json j =
     (case members_of j of
        None \<Rightarrow> None
      | Some kvs \<Rightarrow>
          (case (str_member kvs ''phase'', str_member kvs ''action'',
                 str_member kvs ''timestamp'') of
             (Some p, Some a, Some t) \<Rightarrow>
               if has_members kvs [''phase'', ''action'', ''timestamp''] then
                 Some \<lparr> phase = p, action = a, timestamp = t, detail = None \<rparr>
               else if has_members kvs [''phase'', ''action'', ''timestamp'', ''detail''] then
                 (case str_member kvs ''detail'' of
                    Some d \<Rightarrow> Some \<lparr> phase = p, action = a, timestamp = t, detail = Some d \<rparr>
                  | None \<Rightarrow> None)
               else None
           | _ \<Rightarrow> None))"

fun str_of :: "json \<Rightarrow> string option" where
  "str_of (JStr s) = Some s"
| "str_of _ = None"

definition strs_of :: "json list \<Rightarrow> string list option" where
  "strs_of js = those (map str_of js)"

definition outputs_of_json :: "json \<Rightarrow> (string \<times> string) list option" where
  "outputs_of_json j =
     (case members_of j of
        None \<Rightarrow> None
      | Some kvs \<Rightarrow> map_option (zip (map fst kvs)) (strs_of (map snd kvs)))"

definition history_of_json :: "json \<Rightarrow> HistoryEntry list option" where
  "history_of_json j =
     (case items_of j of None \<Rightarrow> None | Some js \<Rightarrow> those (map entry_of_json js))"

definition state_of_json :: "json \<Rightarrow> PipelineState option" where
  "state_of_json j =
     (case members_of j of
        None \<Rightarrow> None
      | Some kvs \<Rightarrow>
          if has_members kvs [''currentPhase'', ''taskDescription'', ''outputs'', ''history'',
                              ''createdAt'', ''updatedAt''] then
            (case (str_member kvs ''currentPhase'', str_member kvs ''taskDescription'',
                   Option.bind (map_of kvs ''outputs'') outputs_of_json,
                   Option.bind (map_of kvs ''history'') history_of_json,
                   str_member kvs ''createdAt'', str_member kvs ''updatedAt'') of
               (Some p, Some t, Some os, Some h, Some c, Some u) \<Rightarrow>
                 Some \<lparr> currentPhase = p, taskDescription = t, outputs = os, history = h,
                        createdAt = c, updatedAt = u \<rparr>
             | _ \<Rightarrow> None)
          else None)"

definition as_PipelineState :: "json \<Rightarrow> stateval" where
  "as_PipelineState j = (case state_of_json j of Some s \<Rightarrow> WellTyped s | None \<Rightarrow> IllTyped j)"

text \<open>
  The clock. Every \<^verbatim>\<open>new Date().toISOString()\<close> is a reading of it; an operation is given
  the readings it will make, \<open>clk i\<close> being the \<open>i\<close>-th one it makes, counted from 0.
\<close>

type_synonym clock = "nat \<Rightarrow> string"

definition getDefaultState :: "string \<Rightarrow> PipelineState" where
  "getDefaultState now =
     \<lparr> currentPhase = ''idle'', taskDescription = [], outputs = [], history = [],
       createdAt = now, updatedAt = now \<rparr>"

definition ensurePipelineDir :: "store \<Rightarrow> store" where
  "ensurePipelineDir fs =
     (case outputsDir fs of
        None \<Rightarrow> fs\<lparr>outputsDir := Some Map.empty\<rparr>
      | Some d \<Rightarrow> fs)"

definition loadState :: "clock \<Rightarrow> store \<Rightarrow> stateval" where
  "loadState clk fs =
     (case stateFile fs of
        None \<Rightarrow> WellTyped (getDefaultState (clk 0))
      | Some f \<Rightarrow>
          (case readFileSync f of
             Inl e \<Rightarrow> WellTyped (getDefaultState (clk 0))
           | Inr raw \<Rightarrow>
               (case JSON_parse raw of
                  Inl e \<Rightarrow> WellTyped (getDefaultState (clk 0))
                | Inr j \<Rightarrow> as_PipelineState j)))"

text \<open>
  \<^verbatim>\<open>saveState\<close> stamps \<^verbatim>\<open>updatedAt\<close> on the object it is given, so the caller's state
  changes too: the stamped state is returned with the store.
\<close>

definition saveState :: "string \<Rightarrow> store \<Rightarrow> PipelineState \<Rightarrow> store \<times> PipelineState" where
  "saveState now fs s =
     (let fs1 = ensurePipelineDir fs;
          s1 = s\<lparr>updatedAt := now\<rparr>
      in (fs1\<lparr>stateFile := Some (Readable (JSON_stringify (json_of_state s1)))\<rparr>, s1))"

definition writeOutputFile :: "store \<Rightarrow> string \<Rightarrow> string \<Rightarrow> store" where
  "writeOutputFile fs agentName content =
     (case outputsDir fs of
        None \<Rightarrow> fs
      | Some d \<Rightarrow> fs\<lparr>outputsDir := Some (d(agentName \<mapsto> Readable content))\<rparr>)"

definition saveAgentOutput :: "store \<Rightarrow> string \<Rightarrow> string \<Rightarrow> store" where
  "saveAgentOutput fs agentName content = writeOutputFile (ensurePipelineDir fs) agentName content"

definition readAgentOutput :: "store \<Rightarrow> string \<Rightarrow> string option" where
  "readAgentOutput fs agentName =
     (case outputsDir fs of
        None \<Rightarrow> None
      | Some d \<Rightarrow>
          (case d agentName of
             None \<Rightarrow> None
           | Some f \<Rightarrow> (case readFileSync f of Inl e \<Rightarrow> None | Inr content \<Rightarrow> Some content)))"

text \<open>
  \<^verbatim>\<open>readAllOutputs\<close> collects the readable \<^verbatim>\<open>.md\<close> files into a fresh object, one member
  per file; the result is given as the map from agent name to content. A file
  \<^verbatim>\<open>__proto__.md\<close> leaves no member (see \<open>js_set\<close>).
\<close>

definition readAllOutputs :: "store \<Rightarrow> (string \<rightharpoonup> string)" where
  "readAllOutputs fs =
     (case outputsDir fs of
        None \<Rightarrow> Map.empty
      | Some d \<Rightarrow>
          (\<lambda>agentName.
             if agentName = ''__proto__'' then None
             else (case d agentName of
                     None \<Rightarrow> None
                   | Some f \<Rightarrow>
                       (case readFileSync f of Inl e \<Rightarrow> None | Inr content \<Rightarrow> Some content))))"



section \<open>Controller (PipelineManager)\<close>

text \<open>
  The controller holds its in-memory state, of the declared type \<open>PipelineState\<close>, and
  reaches the store through its workspace root. An operation returns or throws; in both
  cases the controller is left in some state, which is part of the result. Event listeners
  and the information message are not modelled: they change neither state nor store.
\<close>

record ctl =
  state :: PipelineState
  disk :: store

datatype outcome = Returned | Threw error

text \<open>
  The class of a thrown error, as its \<^verbatim>\<open>name\<close> reads. The program declares no error class
  of its own: what it throws itself is \<^verbatim>\<open>new Error(message)\<close>; the platform throws
  \<^verbatim>\<open>TypeError\<close> and \<^verbatim>\<open>SyntaxError\<close>, and plain \<^verbatim>\<open>Error\<close> objects for failed file reads.
  \<open>NotAPipelineState\<close> is no error of the program (see \<open>pipeline_save_output\<close>).
\<close>

fun error_name :: "error \<Rightarrow> string option" where
  "error_name (Error m) = Some ''Error''"
| "error_name (TypeError m) = Some ''TypeError''"
| "error_name SyntaxError = Some ''SyntaxError''"
| "error_name IOError = Some ''Error''"
| "error_name NotAPipelineState = None"

fun thrown_name :: "outcome \<Rightarrow> string option" where
  "thrown_name Returned = None"
| "thrown_name (Threw e) = error_name e"

definition quoted :: "string \<Rightarrow> string" where
  "quoted s = [CHR 0x22] @ s @ [CHR 0x22]"

definition squoted :: "string \<Rightarrow> string" where
  "squoted s = [CHR 0x27] @ s @ [CHR 0x27]"

definition getOutputs :: "ctl \<Rightarrow> (string \<rightharpoonup> string)" where
  "getOutputs c = readAllOutputs (disk c)"

definition getOutput :: "ctl \<Rightarrow> string \<Rightarrow> string option" where
  "getOutput c agentName = readAgentOutput (disk c) agentName"

definition addHistory ::
  "string \<Rightarrow> string \<Rightarrow> string \<Rightarrow> string option \<Rightarrow> PipelineState \<Rightarrow> PipelineState" where
  "addHistory now ph act det s =
     s\<lparr>history := history s @ [\<lparr> phase = ph, action = act, timestamp = now, detail = det \<rparr>]\<rparr>"

definition persist :: "string \<Rightarrow> ctl \<Rightarrow> ctl" where
  "persist now c = (case saveState now (disk c) (state c) of (fs, s) \<Rightarrow> \<lparr> state = s, disk = fs \<rparr>)"

definition start :: "clock \<Rightarrow> string \<Rightarrow> ctl \<Rightarrow> outcome \<times> ctl" where
  "start clk task c =
     (if currentPhase (state c) \<noteq> ''idle'' \<and> currentPhase (state c) \<noteq> ''completed'' then
        (Threw (Error (''Cannot start pipeline: currently in phase ''
                       @ quoted (currentPhase (state c)) @ ''. Reset first.'')), c)
      else
        let s0 = getDefaultState (clk 0);
            s1 = s0\<lparr>taskDescription := task\<rparr>;
            s2 = s1\<lparr>currentPhase := ''planning''\<rparr>;
            s3 = addHistory (clk 1) ''planning'' ''started'' (Some (''Task: '' @ task)) s2
        in (Returned, persist (clk 2) (c\<lparr>state := s3\<rparr>)))"

definition saveCurrentOutput :: "clock \<Rightarrow> string \<Rightarrow> ctl \<Rightarrow> outcome \<times> ctl" where
  "saveCurrentOutput clk content c =
     (let ph = currentPhase (state c) in
      case getAgentForPhase ph of
        None \<Rightarrow>
          (Threw (Error (''No agent assigned to phase '' @ quoted ph @ ''. Cannot save output.'')),
           c)
      | Some agent \<Rightarrow>
          let fs1 = saveAgentOutput (disk c) (outputKey agent) content;
              s1 = (state c)\<lparr>outputs := js_set (outputs (state c)) (outputKey agent) content\<rparr>;
              s2 = addHistory (clk 0) ph ''output_saved'' (Some (''Agent: '' @ name agent)) s1;
              rp = reviewPhase agent;
              s3 = s2\<lparr>currentPhase := rp\<rparr>;
              s4 = addHistory (clk 1) rp ''entered''
                     (Some (''Awaiting review for '' @ name agent)) s3
          in (Returned, persist (clk 2) \<lparr> state = s4, disk = fs1 \<rparr>))"

definition approve :: "clock \<Rightarrow> ctl \<Rightarrow> outcome \<times> ctl" where
  "approve clk c =
     (let ph = currentPhase (state c) in
      if ph \<notin> set REVIEW_PHASES \<and> ph \<noteq> ''testing'' then
        (Threw (Error (''Cannot approve: not in a review phase (current: ''
                       @ quoted ph @ '').'')), c)
      else
        let nextPhase = getNextPhaseAfterApproval ph;
            s1 = addHistory (clk 0) ph ''approved'' (Some (''Advancing to '' @ nextPhase)) (state c);
            s2 = s1\<lparr>currentPhase := nextPhase\<rparr>;
            s3 = addHistory (clk 1) nextPhase ''entered'' None s2
        in (Returned, persist (clk 2) (c\<lparr>state := s3\<rparr>)))"

text \<open>\<^verbatim>\<open>feedback || 'No feedback provided'\<close>: a missing or empty feedback gives the placeholder.\<close>

definition reject :: "clock \<Rightarrow> string option \<Rightarrow> ctl \<Rightarrow> outcome \<times> ctl" where
  "reject clk feedback c =
     (let ph = currentPhase (state c) in
      if ph \<notin> set REVIEW_PHASES \<and> ph \<noteq> ''testing'' then
        (Threw (Error (''Cannot reject: not in a review phase (current: ''
                       @ quoted ph @ '').'')), c)
      else
        let retryPhase = getRetryPhase ph;
            fb = (case feedback of
                    None \<Rightarrow> ''No feedback provided''
                  | Some f \<Rightarrow> if f \<noteq> [] then f else ''No feedback provided'');
            s1 = addHistory (clk 0) ph ''rejected'' (Some fb) (state c);
            s2 = s1\<lparr>currentPhase := retryPhase\<rparr>;
            s3 = addHistory (clk 1) retryPhase ''entered'' (Some ''Retry after rejection'') s2
        in (Returned, persist (clk 2) (c\<lparr>state := s3\<rparr>)))"


text \<open>
  \<^verbatim>\<open>reload\<close> assigns whatever \<^verbatim>\<open>loadState\<close> returns, which need not be a
  \<open>PipelineState\<close>, and then reads \<^verbatim>\<open>this.state.currentPhase\<close> for the event: that read
  throws when the value is \<^verbatim>\<open>null\<close>. The result is the outcome, the new in-memory value
  and the store.
\<close>

definition reload :: "clock \<Rightarrow> ctl \<Rightarrow> outcome \<times> stateval \<times> store" where
  "reload clk c =
     (let v = loadState clk (disk c) in
      (case v of
         IllTyped JNull \<Rightarrow>
           Threw (TypeError (''Cannot read properties of null (reading ''
                             @ squoted ''currentPhase'' @ '')''))
       | _ \<Rightarrow> Returned,
       v, disk c))"


definition canApprove :: "ctl \<Rightarrow> bool" where
  "canApprove c = (currentPhase (state c) \<in> set REVIEW_PHASES)"

definition canReject :: "ctl \<Rightarrow> bool" where
  "canReject c = canApprove c"

definition isAgentActive :: "ctl \<Rightarrow> bool" where
  "isAgentActive c =
     (currentPhase (state c) \<in> set [''planning'', ''implementing'', ''reviewing'', ''testing''])"

definition getActiveAgent :: "ctl \<Rightarrow> string option" where
  "getActiveAgent c = map_option name (getAgentForPhase (currentPhase (state c)))"


text \<open>
  Sequences of controller operations, with no write to the store by anyone else in
  between. A throw leaves the controller usable.
\<close>

datatype operation =
  Start clock string
| SaveOutput clock string
| Approve clock
| Reject clock "string option"
| Reset clock
| Reload clock







section \<open>Worker tool surface (MCP server)\<close>

text \<open>
  The server has its own copies of the storage functions. Its \<^verbatim>\<open>loadState\<close> reads the
  clock twice when it builds the default state; the number of readings made is returned
  with the value, so that the handler's later readings are counted from there.
\<close>

definition mcp_loadState :: "clock \<Rightarrow> store \<Rightarrow> stateval \<times> nat" where
  "mcp_loadState clk fs =
     (let dflt = \<lparr> currentPhase = ''idle'', taskDescription = [], outputs = [], history = [],
                   createdAt = clk 0, updatedAt = clk 1 \<rparr>
      in case stateFile fs of
           None \<Rightarrow> (WellTyped dflt, 2)
         | Some f \<Rightarrow>
             (case readFileSync f of
                Inl e \<Rightarrow> (WellTyped dflt, 2)
              | Inr raw \<Rightarrow>
                  (case JSON_parse raw of
                     Inl e \<Rightarrow> (WellTyped dflt, 2)
                   | Inr j \<Rightarrow> (as_PipelineState j, 0))))"

definition ensureDirs :: "store \<Rightarrow> store" where
  "ensureDirs fs =
     (case outputsDir fs of
        None \<Rightarrow> fs\<lparr>outputsDir := Some Map.empty\<rparr>
      | Some d \<Rightarrow> fs)"

definition mcp_writeState :: "store \<Rightarrow> json \<Rightarrow> store" where
  "mcp_writeState fs j = (ensureDirs fs)\<lparr>stateFile := Some (Readable (JSON_stringify j))\<rparr>"

definition mcp_saveState :: "string \<Rightarrow> store \<Rightarrow> PipelineState \<Rightarrow> store" where
  "mcp_saveState now fs s = mcp_writeState fs (json_of_state (s\<lparr>updatedAt := now\<rparr>))"

definition phaseMap :: "(string \<times> string) list" where
  "phaseMap = [(''planner'', ''plan_review''), (''implementer'', ''impl_review''),
               (''reviewer'', ''review_done''), (''test'', ''completed'')]"

text \<open>
  What \<^verbatim>\<open>JSON.stringify\<close> makes of a member of \<^verbatim>\<open>Object.prototype\<close>: the functions are
  left out, the prototype object itself (read through \<^verbatim>\<open>__proto__\<close>) has no enumerable
  member and is written \<^verbatim>\<open>{}\<close>.
\<close>

definition json_of_inherited :: "string \<Rightarrow> json option" where
  "json_of_inherited k = (if k = ''__proto__'' then Some (JObj []) else None)"

text \<open>
  An agent name that is a single path component (no separator, no NUL, short enough for
  a file name): the output file of such a name lies in \<^verbatim>\<open>outputs/\<close>, and its write
  succeeds. For a name with a path separator
  \<^verbatim>\<open>fs.writeFileSync\<close> is given another path and may throw; the store below does not model
  that, so statements about arbitrary names are made for path components.
\<close>

definition path_component :: "string \<Rightarrow> bool" where
  "path_component k = (CHR ''/'' \<notin> set k \<and> CHR 0x00 \<notin> set k \<and> length k \<le> 252)"

text \<open>
  The handler of \<^verbatim>\<open>pipeline_save_output\<close>. The result is the store it leaves (the reply
  text is not modelled), or the error it throws, in which case the store is as it was.

  When the stored record is valid JSON but no \<open>PipelineState\<close>, the first statement,
  \<^verbatim>\<open>state.outputs[args.agent_name] = args.output\<close>, throws a \<^verbatim>\<open>TypeError\<close> if the value is no
  object or has no \<^verbatim>\<open>outputs\<close> (or \<^verbatim>\<open>null\<close> for it). For the remaining values (objects with
  some \<^verbatim>\<open>outputs\<close> that lack a member of a state, have one more, or one of another type)
  what the handler does depends on the value; this is outside the model and marked by
  \<open>NotAPipelineState\<close>, which is no error of the program.

  When \<^verbatim>\<open>phaseMap[args.agent_name]\<close> is an inherited member, that member is assigned to
  \<^verbatim>\<open>currentPhase\<close> and to the \<^verbatim>\<open>phase\<close> of the second history entry, and the record
  written is no \<open>PipelineState\<close> any more.
\<close>

definition pipeline_save_output :: "clock \<Rightarrow> string \<Rightarrow> string \<Rightarrow> store \<Rightarrow> error + store" where
  "pipeline_save_output clk agent_name output fs =
     (case mcp_loadState clk fs of
        (IllTyped j, n) \<Rightarrow>
          (case j of
             JNull \<Rightarrow>
               Inl (TypeError (''Cannot read properties of null (reading ''
                               @ squoted ''outputs'' @ '')''))
           | JObj ms \<Rightarrow>
               (case map_of ms ''outputs'' of
                  None \<Rightarrow>
                    Inl (TypeError (''Cannot set properties of undefined (setting ''
                                    @ squoted agent_name @ '')''))
                | Some JNull \<Rightarrow>
                    Inl (TypeError (''Cannot set properties of null (setting ''
                                    @ squoted agent_name @ '')''))
                | Some v \<Rightarrow> Inl NotAPipelineState)
           | _ \<Rightarrow>
               Inl (TypeError (''Cannot set properties of undefined (setting ''
                               @ squoted agent_name @ '')'')))
      | (WellTyped s, n) \<Rightarrow>
          let s1 = s\<lparr>outputs := js_set (outputs s) agent_name output\<rparr>;
              fs1 = writeOutputFile (ensureDirs fs) agent_name output;
              s2 = s1\<lparr>history := history s1 @
                     [\<lparr> phase = currentPhase s1, action = ''output_saved'', timestamp = clk n,
                        detail = Some (''Agent '' @ agent_name @ '' saved output'') \<rparr>]\<rparr>;
              entered = Some (''Transitioned after '' @ agent_name @ '' output'')
          in (case js_get phaseMap agent_name of
               Own nextPhase \<Rightarrow>
                 (if nextPhase \<noteq> [] then
                    (let s3 = s2\<lparr>currentPhase := nextPhase\<rparr>;
                         s4 = s3\<lparr>history := history s3 @
                                [\<lparr> phase = nextPhase, action = ''entered'',
                                   timestamp = clk (n + 1), detail = entered \<rparr>]\<rparr>
                     in Inr (mcp_saveState (clk (n + 2)) fs1 s4))
                  else Inr (mcp_saveState (clk (n + 1)) fs1 s2))
             | Undefined \<Rightarrow> Inr (mcp_saveState (clk (n + 1)) fs1 s2)
             | Inherited k \<Rightarrow>
                 Inr (mcp_writeState fs1
                        (record_json (json_of_inherited k) (taskDescription s2) (outputs s2)
                           (map json_of_entry (history s2) @
                              [entry_json (json_of_inherited k) ''entered'' (clk (n + 1)) entered])
                           (createdAt s2) (clk (n + 2))))))"


section \<open>Example inputs\<close>

text \<open>A clock that stands still, an empty store, and two controllers used as examples.\<close>

definition noon :: clock where
  "noon i = ''2026-01-01T12:00:00.000Z''"

definition later :: clock where
  "later i = ''2026-01-01T12:00:05.000Z''"

definition no_store :: store where
  "no_store = \<lparr> stateFile = None, outputsDir = None \<rparr>"

definition empty_record_store :: store where
  "empty_record_store = \<lparr> stateFile = Some (Readable (JsonText (JObj []))), outputsDir = None \<rparr>"

text \<open>
  Two loaded values agree up to their time stamps: both are states with the same phase,
  task, outputs and history, or both are the same value of another shape.
\<close>

definition same_but_stamps :: "stateval \<Rightarrow> stateval \<Rightarrow> bool" where
  "same_but_stamps v w =
     (case (v, w) of
        (WellTyped s, WellTyped t) \<Rightarrow>
          currentPhase s = currentPhase t \<and> taskDescription s = taskDescription t \<and>
          outputs s = outputs t \<and> history s = history t
      | (IllTyped j, IllTyped k) \<Rightarrow> j = k
      | _ \<Rightarrow> False)"

definition fresh_ctl :: ctl where
  "fresh_ctl = \<lparr> state = getDefaultState ''2026-01-01T12:00:00.000Z'', disk = no_store \<rparr>"

definition odd_ctl :: ctl where
  "odd_ctl = \<lparr> state = getDefaultState ''2026-01-01T12:00:00.000Z'', disk = empty_record_store \<rparr>"

text \<open>
  A controller in phase \<open>p\<close> whose state is the one on disk, with the planner's output
  recorded and its file present.
\<close>

definition ctl_in :: "PipelinePhase \<Rightarrow> ctl" where
  "ctl_in p =
     (let s = \<lparr> currentPhase = p, taskDescription = ''Add auth'',
                 outputs = [(''planner'', ''plan text'')], history = [],
                 createdAt = ''2026-01-01T11:00:00.000Z'',
                 updatedAt = ''2026-01-01T11:30:00.000Z'' \<rparr>
      in \<lparr> state = s,
           disk = \<lparr> stateFile = Some (Readable (JSON_stringify (json_of_state s))),
                    outputsDir = Some [''planner'' \<mapsto> Readable ''plan text''] \<rparr> \<rparr>)"


section \<open>Properties of the phase table\<close>

lemma indexOf_notin: "x \<notin> set xs \<Longrightarrow> indexOf xs x = - 1"
  by (induction xs) (auto simp: Let_def)

lemma indexOf_nth: "distinct xs \<Longrightarrow> i < length xs \<Longrightarrow> indexOf xs (xs ! i) = int i"
proof (induction xs arbitrary: i)
  case Nil
  then show ?case by simp
next
  case (Cons y ys)
  show ?case
  proof (cases i)
    case 0
    then show ?thesis by simp
  next
    case (Suc j)
    with Cons.prems have j: "j < length ys" and d: "distinct ys" and ny: "ys ! j \<noteq> y"
      by auto
    from Cons.IH [OF d j] Suc ny show ?thesis
      by (auto simp: Let_def)
  qed
qed

lemma distinct_PHASE_ORDER: "distinct PHASE_ORDER"
  by (simp add: PHASE_ORDER_def)

lemma length_PHASE_ORDER: "length PHASE_ORDER = 9"
  by (simp add: PHASE_ORDER_def)

lemma last_PHASE_ORDER: "PHASE_ORDER ! 8 = ''completed''"
  by (simp add: PHASE_ORDER_def)

text \<open>
  Claim C2, as stated, fails: the order that \<open>getNextPhaseAfterApproval\<close> walks is
  \<open>PHASE_ORDER\<close>, which begins with \<open>idle\<close>, so \<open>idle\<close> is an element of it and is followed
  by \<open>planning\<close>; the result for \<open>idle\<close> is not \<open>completed\<close>.
\<close>

theorem getNextPhaseAfterApproval_idle_counterexample:
  "getNextPhaseAfterApproval ''idle'' = ''planning''
   \<and> getNextPhaseAfterApproval ''idle'' \<noteq> ''completed''"
  by (simp add: getNextPhaseAfterApproval_def PHASE_ORDER_def)

text \<open>
  Claim C2, amended: \<open>getNextPhaseAfterApproval p\<close> is the phase immediately following \<open>p\<close>
  in the order \<open>[idle, planning, plan_review, implementing, impl_review, reviewing,
  review_done, testing, completed]\<close> (so \<open>idle\<close> gives \<open>planning\<close>), and it is \<open>completed\<close>
  when \<open>p\<close> is the last element of that order or no element of it.
\<close>

theorem getNextPhaseAfterApproval_order:
  "PHASE_ORDER = [''idle'', ''planning'', ''plan_review'', ''implementing'', ''impl_review'',
                  ''reviewing'', ''review_done'', ''testing'', ''completed'']
   \<and> (i + 1 < length PHASE_ORDER \<longrightarrow>
        getNextPhaseAfterApproval (PHASE_ORDER ! i) = PHASE_ORDER ! (i + 1))
   \<and> (p \<notin> set PHASE_ORDER \<or> p = ''completed'' \<longrightarrow> getNextPhaseAfterApproval p = ''completed'')"
proof (intro conjI impI)
  show "PHASE_ORDER = [''idle'', ''planning'', ''plan_review'', ''implementing'',
          ''impl_review'', ''reviewing'', ''review_done'', ''testing'', ''completed'']"
    by (simp add: PHASE_ORDER_def)
next
  assume i: "i + 1 < length PHASE_ORDER"
  then have "indexOf PHASE_ORDER (PHASE_ORDER ! i) = int i"
    by (intro indexOf_nth distinct_PHASE_ORDER) simp
  with i show "getNextPhaseAfterApproval (PHASE_ORDER ! i) = PHASE_ORDER ! (i + 1)"
    by (simp add: getNextPhaseAfterApproval_def Let_def nat_add_distrib)
next
  assume "p \<notin> set PHASE_ORDER \<or> p = ''completed''"
  then show "getNextPhaseAfterApproval p = ''completed''"
  proof
    assume "p \<notin> set PHASE_ORDER"
    then show ?thesis
      by (simp add: getNextPhaseAfterApproval_def indexOf_notin)
  next
    assume "p = ''completed''"
    then have "indexOf PHASE_ORDER p = 8"
      using indexOf_nth [OF distinct_PHASE_ORDER, of 8]
      by (simp add: length_PHASE_ORDER last_PHASE_ORDER)
    then show ?thesis
      by (simp add: getNextPhaseAfterApproval_def length_PHASE_ORDER)
  qed
qed

theorem getNextPhaseAfterApproval_order_witness:
  "(2::nat) + 1 < length PHASE_ORDER
   \<and> getNextPhaseAfterApproval ''plan_review'' = ''implementing''
   \<and> ''paused'' \<notin> set PHASE_ORDER
   \<and> getNextPhaseAfterApproval ''paused'' = ''completed''"
proof -
  have a: "(2::nat) + 1 < length PHASE_ORDER"
    by (simp add: PHASE_ORDER_def)
  have b: "''paused'' \<notin> set PHASE_ORDER"
    by (simp add: PHASE_ORDER_def)
  have c: "PHASE_ORDER ! 2 = ''plan_review''" "PHASE_ORDER ! (2 + 1) = ''implementing''"
    by (simp_all add: PHASE_ORDER_def)
  from getNextPhaseAfterApproval_order [of 2 "''paused''"] a b c show ?thesis
    by simp
qed

text \<open>
  Claim C6, as stated, fails: every phase outside the four listed ones is mapped to
  itself, and \<open>reviewing\<close> is such a phase, so \<open>reviewing\<close> is returned for the input
  \<open>reviewing\<close>.
\<close>

theorem getRetryPhase_reviewing_counterexample:
  "getRetryPhase ''reviewing'' = ''reviewing''"
  by (simp add: getRetryPhase_def)

text \<open>
  Claim C6, amended: \<open>getRetryPhase\<close> maps \<open>plan_review\<close> to \<open>planning\<close> and \<open>impl_review\<close>,
  \<open>review_done\<close> and \<open>testing\<close> to \<open>implementing\<close>, and every other phase to itself; it
  returns \<open>testing\<close> for no input, and \<open>reviewing\<close> only for the input \<open>reviewing\<close> itself
  (never for a review phase or for \<open>testing\<close>).
\<close>

theorem getRetryPhase_table:
  "getRetryPhase ''plan_review'' = ''planning''
   \<and> getRetryPhase ''impl_review'' = ''implementing''
   \<and> getRetryPhase ''review_done'' = ''implementing''
   \<and> getRetryPhase ''testing'' = ''implementing''
   \<and> (p \<notin> set [''plan_review'', ''impl_review'', ''review_done'', ''testing''] \<longrightarrow>
        getRetryPhase p = p)
   \<and> getRetryPhase q \<noteq> ''testing''
   \<and> (getRetryPhase q = ''reviewing'' \<longrightarrow> q = ''reviewing'')"
  by (simp add: getRetryPhase_def)

theorem getRetryPhase_table_witness:
  "''idle'' \<notin> set [''plan_review'', ''impl_review'', ''review_done'', ''testing'']
   \<and> getRetryPhase ''idle'' = ''idle''
   \<and> getRetryPhase ''reviewing'' = ''reviewing''"
  using getRetryPhase_table [of "''idle''" "''reviewing''"]
  by (simp add: getRetryPhase_def)

section \<open>Properties of the persisted store\<close>

lemma entry_of_json_of_entry: "entry_of_json (json_of_entry e) = Some e"
  by (cases "detail e")
     (simp_all add: entry_of_json_def json_of_entry_def entry_json_def str_member_def
        has_members_def)

lemma history_of_json_of_history:
  "history_of_json (JArr (map json_of_entry h)) = Some h"
  by (induction h) (simp_all add: history_of_json_def entry_of_json_of_entry)

lemma strs_of_JStr: "strs_of (map (\<lambda>x. JStr (snd x)) outs) = Some (map snd outs)"
  by (induction outs) (simp_all add: strs_of_def)

lemma outputs_of_json_of_outputs:
  "outputs_of_json (JObj (map (\<lambda>(k, v). (k, JStr v)) outs)) = Some outs"
  by (simp add: outputs_of_json_def comp_def case_prod_unfold strs_of_JStr zip_map_fst_snd)

lemma state_of_json_of_state: "state_of_json (json_of_state s) = Some s"
  by (simp add: state_of_json_def json_of_state_def record_json_def str_member_def
      has_members_def outputs_of_json_of_outputs history_of_json_of_history)

lemma as_PipelineState_json_of_state: "as_PipelineState (json_of_state s) = WellTyped s"
  by (simp add: as_PipelineState_def state_of_json_of_state)

text \<open>
  Claim C7: for every state \<open>s\<close>, \<open>saveState\<close> followed by \<open>loadState\<close> yields a state
  equal to \<open>s\<close> in \<open>currentPhase\<close>, \<open>taskDescription\<close>, \<open>outputs\<close>, \<open>history\<close> and
  \<open>createdAt\<close>; only \<open>updatedAt\<close> may differ (it is the time of the save). This holds
  whatever the store held before and whatever the clock reads at the load.
\<close>

theorem saveState_loadState_roundtrip:
  "loadState clk (fst (saveState now fs s)) = WellTyped (s\<lparr>updatedAt := now\<rparr>)"
  by (simp add: loadState_def saveState_def Let_def readFileSync_def JSON_parse_def
      JSON_stringify_def as_PipelineState_json_of_state)

theorem saveState_loadState_roundtrip_witness:
  "loadState later (fst (saveState ''2026-01-01T12:00:01.000Z'' no_store
      \<lparr> currentPhase = ''plan_review'', taskDescription = ''Add auth'',
        outputs = [(''planner'', ''plan text'')],
        history = [\<lparr> phase = ''planning'', action = ''started'', timestamp = ''t1'',
                     detail = Some ''Task: Add auth'' \<rparr>,
                   \<lparr> phase = ''plan_review'', action = ''entered'', timestamp = ''t2'',
                     detail = None \<rparr>],
        createdAt = ''t0'', updatedAt = ''t2'' \<rparr>))
   = WellTyped
      \<lparr> currentPhase = ''plan_review'', taskDescription = ''Add auth'',
        outputs = [(''planner'', ''plan text'')],
        history = [\<lparr> phase = ''planning'', action = ''started'', timestamp = ''t1'',
                     detail = Some ''Task: Add auth'' \<rparr>,
                   \<lparr> phase = ''plan_review'', action = ''entered'', timestamp = ''t2'',
                     detail = None \<rparr>],
        createdAt = ''t0'', updatedAt = ''2026-01-01T12:00:01.000Z'' \<rparr>"
  using saveState_loadState_roundtrip [of later "''2026-01-01T12:00:01.000Z''" no_store
      "\<lparr> currentPhase = ''plan_review'', taskDescription = ''Add auth'',
        outputs = [(''planner'', ''plan text'')],
        history = [\<lparr> phase = ''planning'', action = ''started'', timestamp = ''t1'',
                     detail = Some ''Task: Add auth'' \<rparr>,
                   \<lparr> phase = ''plan_review'', action = ''entered'', timestamp = ''t2'',
                     detail = None \<rparr>],
        createdAt = ''t0'', updatedAt = ''t2'' \<rparr>"]
  by simp

text \<open>
  Claim C5, as stated, fails: a state file holding the valid JSON text \<^verbatim>\<open>{}\<close> is no
  well-formed \<open>PipelineState\<close> record, yet \<open>loadState\<close> returns the parsed value as it is
  and not the default state.
\<close>

theorem loadState_wrong_shape_counterexample:
  "loadState noon empty_record_store = IllTyped (JObj [])
   \<and> loadState noon empty_record_store \<noteq> WellTyped (getDefaultState (noon 0))"
  by (simp add: loadState_def empty_record_store_def readFileSync_def JSON_parse_def
      as_PipelineState_def state_of_json_def has_members_def)

text \<open>
  Claim C5, amended: for every content of the state file, including its absence,
  \<open>loadState\<close> returns a value and never raises. It returns the default state (phase
  \<open>idle\<close>, empty task, outputs and history) whenever the file does not exist, cannot be
  read, or is not valid JSON. When the file is valid JSON it returns the parsed value
  unchecked: the stored state if the text is one, any other JSON value as it is. (The four
  cases are all the contents a state file can have.)
\<close>

theorem loadState_cases:
  "(stateFile fs = None \<or> stateFile fs = Some Unreadable \<or> stateFile fs = Some (Readable NotJson)
      \<longrightarrow> loadState clk fs = WellTyped (getDefaultState (clk 0)))
   \<and> (stateFile fs = Some (Readable (JsonText j)) \<longrightarrow>
        loadState clk fs = (case state_of_json j of Some s \<Rightarrow> WellTyped s | None \<Rightarrow> IllTyped j))
   \<and> (stateFile fs = Some (Readable (JsonText (json_of_state s))) \<longrightarrow>
        loadState clk fs = WellTyped s)
   \<and> getDefaultState (clk 0) =
        \<lparr> currentPhase = ''idle'', taskDescription = [], outputs = [], history = [],
          createdAt = clk 0, updatedAt = clk 0 \<rparr>"
  by (auto simp: loadState_def readFileSync_def JSON_parse_def as_PipelineState_def
      state_of_json_of_state getDefaultState_def)

theorem loadState_cases_witness:
  "stateFile (no_store\<lparr>stateFile := Some (Readable NotJson)\<rparr>) = Some (Readable NotJson)
   \<and> loadState noon (no_store\<lparr>stateFile := Some (Readable NotJson)\<rparr>)
       = WellTyped (getDefaultState (noon 0))
   \<and> stateFile empty_record_store = Some (Readable (JsonText (JObj [])))
   \<and> loadState noon empty_record_store = IllTyped (JObj [])
   \<and> loadState noon (no_store\<lparr>stateFile :=
         Some (Readable (JsonText (json_of_state (getDefaultState ''t0''))))\<rparr>)
       = WellTyped (getDefaultState ''t0'')"
proof -
  have a: "stateFile (no_store\<lparr>stateFile := Some (Readable NotJson)\<rparr>) = Some (Readable NotJson)"
    by simp
  have b: "stateFile empty_record_store = Some (Readable (JsonText (JObj [])))"
    by (simp add: empty_record_store_def)
  have c: "stateFile (no_store\<lparr>stateFile :=
             Some (Readable (JsonText (json_of_state (getDefaultState ''t0''))))\<rparr>)
           = Some (Readable (JsonText (json_of_state (getDefaultState ''t0''))))"
    by simp
  have d: "state_of_json (JObj []) = None"
    by (simp add: state_of_json_def has_members_def)
  from loadState_cases [where fs = "no_store\<lparr>stateFile := Some (Readable NotJson)\<rparr>"
                           and clk = noon]
       loadState_cases [where fs = empty_record_store and j = "JObj []" and clk = noon]
       loadState_cases [where fs = "no_store\<lparr>stateFile :=
           Some (Readable (JsonText (json_of_state (getDefaultState ''t0''))))\<rparr>"
           and clk = noon and s = "getDefaultState ''t0''"]
       a b c d
  show ?thesis by simp
qed

text \<open>
  Claim C8, as stated, fails when no state record exists: each \<open>reload\<close> then builds a
  fresh default state stamped with the time of that reload, so two reloads five seconds
  apart leave different in-memory states (the store is untouched in between).
\<close>

theorem reload_twice_counterexample:
  "fst (snd (reload noon \<lparr> state = getDefaultState ''T'', disk = no_store \<rparr>))
     = WellTyped (getDefaultState ''2026-01-01T12:00:00.000Z'')
   \<and> snd (snd (reload noon \<lparr> state = getDefaultState ''T'', disk = no_store \<rparr>)) = no_store
   \<and> fst (snd (reload later
        \<lparr> state = getDefaultState ''2026-01-01T12:00:00.000Z'', disk = no_store \<rparr>))
     = WellTyped (getDefaultState ''2026-01-01T12:00:05.000Z'')
   \<and> getDefaultState ''2026-01-01T12:00:00.000Z'' \<noteq> getDefaultState ''2026-01-01T12:00:05.000Z''"
  by (simp add: reload_def loadState_def no_store_def noon_def later_def Let_def
      getDefaultState_def)

text \<open>
  Claim C8, amended: calling \<open>reload\<close> twice in a row with no intervening write (the
  second call finds the store the first one left, which is the store it found) yields, for
  every store content, in-memory states that agree in \<open>currentPhase\<close>, \<open>taskDescription\<close>,
  \<open>outputs\<close> and \<open>history\<close> (and are the same value when the record is valid JSON of
  another shape). The two results are identical when the state file holds valid JSON, or
  when the clock reads the same at both reloads; when a default state is built,
  \<open>createdAt\<close> and \<open>updatedAt\<close> are the time of the reload that built it.
\<close>

theorem reload_twice:
  assumes "disk c2 = snd (snd (reload clk1 c1))"
  shows "snd (snd (reload clk2 c2)) = disk c1
    \<and> same_but_stamps (fst (snd (reload clk1 c1))) (fst (snd (reload clk2 c2)))
    \<and> (stateFile (disk c1) = Some (Readable (JsonText j)) \<or> clk1 0 = clk2 0 \<longrightarrow>
         reload clk2 c2 = reload clk1 c1)
    \<and> (stateFile (disk c1) = None \<or> stateFile (disk c1) = Some Unreadable
         \<or> stateFile (disk c1) = Some (Readable NotJson) \<longrightarrow>
         fst (snd (reload clk1 c1)) = WellTyped (getDefaultState (clk1 0))
         \<and> fst (snd (reload clk2 c2)) = WellTyped (getDefaultState (clk2 0)))"
  using assms
  apply (simp add: reload_def Let_def)
  apply (auto simp: same_but_stamps_def loadState_def readFileSync_def JSON_parse_def
      getDefaultState_def as_PipelineState_def
      split: option.splits fsfile.splits jtext.splits stateval.splits json.splits)
  done

theorem reload_twice_witness:
  "disk fresh_ctl = snd (snd (reload noon fresh_ctl))
   \<and> same_but_stamps (fst (snd (reload noon fresh_ctl))) (fst (snd (reload later fresh_ctl)))
   \<and> noon 0 = noon 0
   \<and> reload noon fresh_ctl = reload noon fresh_ctl
   \<and> disk odd_ctl = snd (snd (reload noon odd_ctl))
   \<and> stateFile (disk odd_ctl) = Some (Readable (JsonText (JObj [])))
   \<and> reload later odd_ctl = reload noon odd_ctl
   \<and> stateFile (disk fresh_ctl) = None
   \<and> fst (snd (reload noon fresh_ctl)) = WellTyped (getDefaultState (noon 0))
   \<and> fst (snd (reload later fresh_ctl)) = WellTyped (getDefaultState (later 0))"
proof -
  have a: "disk fresh_ctl = snd (snd (reload noon fresh_ctl))"
    by (simp add: reload_def Let_def)
  have b: "disk odd_ctl = snd (snd (reload noon odd_ctl))"
    by (simp add: reload_def Let_def)
  have c: "stateFile (disk odd_ctl) = Some (Readable (JsonText (JObj [])))"
    by (simp add: odd_ctl_def empty_record_store_def)
  have d: "stateFile (disk fresh_ctl) = None"
    by (simp add: fresh_ctl_def no_store_def)
  from reload_twice [OF a, of later] reload_twice [OF b, of later "JObj []"] a b c d
  show ?thesis by blast
qed


section \<open>Properties of the controller\<close>

lemma getAgentForPhase_None:
  "getAgentForPhase p = None \<longleftrightarrow> p \<notin> set [''planning'', ''implementing'', ''reviewing'', ''testing'']"
  by (simp add: getAgentForPhase_def js_get_def PHASE_AGENT_MAP_def AGENTS_def)

lemma getAgentForPhase_Some:
  "getAgentForPhase ''planning'' = Some planner"
  "getAgentForPhase ''implementing'' = Some implementer"
  "getAgentForPhase ''reviewing'' = Some reviewer"
  "getAgentForPhase ''testing'' = Some test"
  by (simp_all add: getAgentForPhase_def js_get_def PHASE_AGENT_MAP_def AGENTS_def)

lemma ctl_in_phase: "currentPhase (state (ctl_in p)) = p"
  by (simp add: ctl_in_def Let_def)

text \<open>
  Claim C4, as stated, fails on the error: the operations do fail on their guard, but
  what they throw is a plain \<^verbatim>\<open>Error\<close> in all four cases, an invalid transition (\<open>start\<close>,
  \<open>approve\<close>, \<open>reject\<close>) as well as a missing agent (\<open>saveCurrentOutput\<close>); the program has
  no \<open>InvalidTransition\<close> or \<open>NoActiveAgent\<close> error type.
\<close>

theorem guards_throw_plain_Error_counterexample:
  "thrown_name (fst (start noon ''Next task'' (ctl_in ''implementing''))) = Some ''Error''
   \<and> thrown_name (fst (saveCurrentOutput noon ''text'' (ctl_in ''plan_review''))) = Some ''Error''
   \<and> thrown_name (fst (approve noon (ctl_in ''implementing''))) = Some ''Error''
   \<and> thrown_name (fst (reject noon (Some ''needs refactor'') (ctl_in ''implementing'')))
       = Some ''Error''
   \<and> thrown_name (fst (start noon ''Next task'' (ctl_in ''implementing'')))
       \<noteq> Some ''InvalidTransition''
   \<and> thrown_name (fst (saveCurrentOutput noon ''text'' (ctl_in ''plan_review'')))
       \<noteq> Some ''NoActiveAgent''"
proof -
  have "getAgentForPhase ''plan_review'' = None"
    by (simp add: getAgentForPhase_None)
  then show ?thesis
    by (simp add: start_def saveCurrentOutput_def approve_def reject_def Let_def ctl_in_phase
        REVIEW_PHASES_def)
qed

text \<open>
  Claim C4, amended: every controller operation checks its phase guard itself and is
  all-or-nothing when the guard fails. \<open>start\<close> outside \<open>idle\<close> and \<open>completed\<close>,
  \<open>saveCurrentOutput\<close> in a phase with no agent (any phase but the four work phases), and
  \<open>approve\<close> and \<open>reject\<close> in a phase that is neither a review phase nor \<open>testing\<close>, throw
  at once, and the controller is left exactly as it was: in-memory state (history
  included) and store. What is thrown is a plain \<^verbatim>\<open>Error\<close>, not a typed one; its message
  names the failed operation and the current phase.
\<close>

theorem guards_all_or_nothing:
  "(currentPhase (state c) \<noteq> ''idle'' \<and> currentPhase (state c) \<noteq> ''completed'' \<longrightarrow>
      start clk task c =
        (Threw (Error (''Cannot start pipeline: currently in phase ''
                       @ quoted (currentPhase (state c)) @ ''. Reset first.'')), c))
   \<and> (currentPhase (state c) \<notin> set [''planning'', ''implementing'', ''reviewing'', ''testing'']
        \<longrightarrow>
      saveCurrentOutput clk content c =
        (Threw (Error (''No agent assigned to phase '' @ quoted (currentPhase (state c))
                       @ ''. Cannot save output.'')), c))
   \<and> (currentPhase (state c) \<notin> set [''plan_review'', ''impl_review'', ''review_done'', ''testing'']
        \<longrightarrow>
      approve clk c =
        (Threw (Error (''Cannot approve: not in a review phase (current: ''
                       @ quoted (currentPhase (state c)) @ '').'')), c)
      \<and> reject clk feedback c =
        (Threw (Error (''Cannot reject: not in a review phase (current: ''
                       @ quoted (currentPhase (state c)) @ '').'')), c))"
proof (intro conjI impI)
  assume "currentPhase (state c) \<noteq> ''idle'' \<and> currentPhase (state c) \<noteq> ''completed''"
  then show "start clk task c =
        (Threw (Error (''Cannot start pipeline: currently in phase ''
                       @ quoted (currentPhase (state c)) @ ''. Reset first.'')), c)"
    by (simp add: start_def)
next
  assume "currentPhase (state c) \<notin> set [''planning'', ''implementing'', ''reviewing'', ''testing'']"
  then have "getAgentForPhase (currentPhase (state c)) = None"
    using getAgentForPhase_None [of "currentPhase (state c)"] by blast
  then show "saveCurrentOutput clk content c =
        (Threw (Error (''No agent assigned to phase '' @ quoted (currentPhase (state c))
                       @ ''. Cannot save output.'')), c)"
    by (simp add: saveCurrentOutput_def Let_def)
next
  assume a: "currentPhase (state c) \<notin> set [''plan_review'', ''impl_review'', ''review_done'', ''testing'']"
  then show "approve clk c =
        (Threw (Error (''Cannot approve: not in a review phase (current: ''
                       @ quoted (currentPhase (state c)) @ '').'')), c)"
    by (simp add: approve_def Let_def REVIEW_PHASES_def)
  from a show "reject clk feedback c =
        (Threw (Error (''Cannot reject: not in a review phase (current: ''
                       @ quoted (currentPhase (state c)) @ '').'')), c)"
    by (simp add: reject_def Let_def REVIEW_PHASES_def)
qed

theorem guards_all_or_nothing_witness:
  "start noon ''Next task'' (ctl_in ''implementing'') =
     (Threw (Error (''Cannot start pipeline: currently in phase '' @ quoted ''implementing''
                    @ ''. Reset first.'')), ctl_in ''implementing'')
   \<and> saveCurrentOutput noon ''text'' (ctl_in ''plan_review'') =
     (Threw (Error (''No agent assigned to phase '' @ quoted ''plan_review''
                    @ ''. Cannot save output.'')), ctl_in ''plan_review'')
   \<and> approve noon (ctl_in ''implementing'') =
     (Threw (Error (''Cannot approve: not in a review phase (current: ''
                    @ quoted ''implementing'' @ '').'')), ctl_in ''implementing'')
   \<and> reject noon (Some ''needs refactor'') (ctl_in ''implementing'') =
     (Threw (Error (''Cannot reject: not in a review phase (current: ''
                    @ quoted ''implementing'' @ '').'')), ctl_in ''implementing'')"
  using guards_all_or_nothing [of "ctl_in ''implementing''" noon "''Next task''" _
          "Some ''needs refactor''"]
        guards_all_or_nothing [of "ctl_in ''plan_review''" noon _ "''text''"]
  by (simp add: ctl_in_phase)

lemma readAllOutputs_ensure: "readAllOutputs (ensurePipelineDir fs) = readAllOutputs fs"
  by (auto simp: readAllOutputs_def ensurePipelineDir_def split: option.splits)

lemma readAgentOutput_ensure: "readAgentOutput (ensurePipelineDir fs) a = readAgentOutput fs a"
  by (auto simp: readAgentOutput_def ensurePipelineDir_def split: option.splits)

lemma readAllOutputs_cong:
  "outputsDir fs = outputsDir fs' \<Longrightarrow> readAllOutputs fs = readAllOutputs fs'"
  by (simp add: readAllOutputs_def)

lemma readAgentOutput_cong:
  "outputsDir fs = outputsDir fs' \<Longrightarrow> readAgentOutput fs a = readAgentOutput fs' a"
  by (simp add: readAgentOutput_def)

lemma persist_outputsDir:
  "outputsDir (disk (persist now c)) = outputsDir (ensurePipelineDir (disk c))"
  by (simp add: persist_def saveState_def Let_def)

lemma persist_state: "state (persist now c) = (state c)\<lparr>updatedAt := now\<rparr>"
  by (simp add: persist_def saveState_def Let_def)

text \<open>
  Claim C9: \<open>start\<close>, invoked in phase \<open>idle\<close> or \<open>completed\<close>, returns, empties the
  in-memory \<open>outputs\<close>, and leaves the output files as they were: \<open>getOutput\<close> gives for
  every agent what it gave before (in particular the content of each file that existed),
  and \<open>getOutputs\<close> gives the same map as before.
\<close>

theorem start_keeps_output_files:
  assumes "currentPhase (state c) = ''idle'' \<or> currentPhase (state c) = ''completed''"
  shows "fst (start clk task c) = Returned
    \<and> outputs (state (snd (start clk task c))) = []
    \<and> getOutput (snd (start clk task c)) a = getOutput c a
    \<and> getOutputs (snd (start clk task c)) = getOutputs c"
proof -
  from assms have 1: "fst (start clk task c) = Returned"
    by (auto simp: start_def Let_def)
  from assms have 2: "outputs (state (snd (start clk task c))) = []"
    by (auto simp: start_def Let_def persist_state addHistory_def getDefaultState_def)
  from assms have 3: "outputsDir (disk (snd (start clk task c))) = outputsDir (ensurePipelineDir (disk c))"
    by (auto simp: start_def Let_def persist_outputsDir)
  have 4: "getOutput (snd (start clk task c)) a = getOutput c a"
    unfolding getOutput_def
    using readAgentOutput_cong [OF 3] readAgentOutput_ensure by simp
  have 5: "getOutputs (snd (start clk task c)) = getOutputs c"
    unfolding getOutputs_def
    using readAllOutputs_cong [OF 3] readAllOutputs_ensure by simp
  from 1 2 4 5 show ?thesis by simp
qed

theorem start_keeps_output_files_witness:
  "currentPhase (state (ctl_in ''completed'')) = ''completed''
   \<and> getOutput (ctl_in ''completed'') ''planner'' = Some ''plan text''
   \<and> fst (start noon ''Next task'' (ctl_in ''completed'')) = Returned
   \<and> outputs (state (snd (start noon ''Next task'' (ctl_in ''completed'')))) = []
   \<and> getOutput (snd (start noon ''Next task'' (ctl_in ''completed''))) ''planner''
       = Some ''plan text''
   \<and> getOutputs (snd (start noon ''Next task'' (ctl_in ''completed'')))
       = getOutputs (ctl_in ''completed'')"
proof -
  have a: "currentPhase (state (ctl_in ''completed'')) = ''idle''
           \<or> currentPhase (state (ctl_in ''completed'')) = ''completed''"
    by (simp add: ctl_in_phase)
  have b: "getOutput (ctl_in ''completed'') ''planner'' = Some ''plan text''"
    by (simp add: getOutput_def readAgentOutput_def ctl_in_def Let_def readFileSync_def)
  from start_keeps_output_files [OF a, of noon "''Next task''" "''planner''"] b
  show ?thesis by (simp add: ctl_in_phase)
qed




















section \<open>Properties of the worker tool surface\<close>

lemma ensureDirs_eq: "ensureDirs fs = ensurePipelineDir fs"
  by (simp add: ensureDirs_def ensurePipelineDir_def)

lemma getAgentForPhase_SomeD:
  assumes "getAgentForPhase p = Some a"
  shows "(p = ''planning'' \<and> a = planner) \<or> (p = ''implementing'' \<and> a = implementer)
       \<or> (p = ''reviewing'' \<and> a = reviewer) \<or> (p = ''testing'' \<and> a = test)"
proof -
  from assms have "getAgentForPhase p \<noteq> None" by simp
  then have "p = ''planning'' \<or> p = ''implementing'' \<or> p = ''reviewing'' \<or> p = ''testing''"
    by (simp add: getAgentForPhase_None)
  then show ?thesis
  proof (elim disjE)
    assume "p = ''planning''"
    with assms show ?thesis by (simp add: getAgentForPhase_Some)
  next
    assume "p = ''implementing''"
    with assms show ?thesis by (simp add: getAgentForPhase_Some)
  next
    assume "p = ''reviewing''"
    with assms show ?thesis by (simp add: getAgentForPhase_Some)
  next
    assume "p = ''testing''"
    with assms show ?thesis by (simp add: getAgentForPhase_Some)
  qed
qed

lemma agent_facts:
  assumes "getAgentForPhase p = Some a"
  shows "outputKey a = name a" and "js_get phaseMap (name a) = Own (reviewPhase a)"
    and "reviewPhase a \<noteq> []"
proof -
  from getAgentForPhase_SomeD [OF assms]
  have "a = planner \<or> a = implementer \<or> a = reviewer \<or> a = test"
    by blast
  then have "outputKey a = name a \<and> js_get phaseMap (name a) = Own (reviewPhase a)
             \<and> reviewPhase a \<noteq> []"
  proof (elim disjE)
    assume "a = planner"
    then show ?thesis by (simp add: planner_def js_get_def phaseMap_def)
  next
    assume "a = implementer"
    then show ?thesis by (simp add: implementer_def js_get_def phaseMap_def)
  next
    assume "a = reviewer"
    then show ?thesis by (simp add: reviewer_def js_get_def phaseMap_def)
  next
    assume "a = test"
    then show ?thesis by (simp add: test_def js_get_def phaseMap_def)
  qed
  then show "outputKey a = name a" and "js_get phaseMap (name a) = Own (reviewPhase a)"
    and "reviewPhase a \<noteq> []"
    by simp_all
qed

lemma mcp_loadState_persisted:
  "stateFile fs = Some (Readable (JSON_stringify (json_of_state s))) \<Longrightarrow>
   mcp_loadState clk fs = (WellTyped s, 0)"
  by (simp add: mcp_loadState_def readFileSync_def JSON_parse_def JSON_stringify_def
      as_PipelineState_json_of_state)

lemma loadState_mcp_saveState:
  "loadState clk (mcp_saveState now fs s) = WellTyped (s\<lparr>updatedAt := now\<rparr>)"
  by (simp add: loadState_def mcp_saveState_def mcp_writeState_def readFileSync_def
      JSON_parse_def JSON_stringify_def as_PipelineState_json_of_state)

lemma loadState_persist:
  "loadState clk (disk (persist now c)) = WellTyped (state (persist now c))"
  by (simp add: persist_def saveState_def Let_def loadState_def readFileSync_def
      JSON_parse_def JSON_stringify_def as_PipelineState_json_of_state)

lemma outputsDir_mcp_saveState:
  "outputsDir (mcp_saveState now fs s) = outputsDir (ensurePipelineDir fs)"
  by (simp add: mcp_saveState_def mcp_writeState_def ensureDirs_eq)

lemma ctl_in_persisted:
  "stateFile (disk (ctl_in p)) = Some (Readable (JSON_stringify (json_of_state (state (ctl_in p)))))"
  by (simp add: ctl_in_def Let_def)

lemma ctl_in_state:
  "state (ctl_in p) =
     \<lparr> currentPhase = p, taskDescription = ''Add auth'',
       outputs = [(''planner'', ''plan text'')], history = [],
       createdAt = ''2026-01-01T11:00:00.000Z'', updatedAt = ''2026-01-01T11:30:00.000Z'' \<rparr>"
  by (simp add: ctl_in_def Let_def)

text \<open>
  Claim C1, as stated, fails on the appended history entries: in phase \<open>planning\<close>, with
  the same content and the same clock, the controller's \<open>saveCurrentOutput\<close> and the
  tool \<open>pipeline_save_output\<close> called for \<open>planner\<close> leave stored states whose two new
  history entries carry different \<open>detail\<close> texts.
\<close>

theorem save_output_paths_differ_counterexample:
  "loadState noon (disk (snd (saveCurrentOutput noon ''plan v2'' (ctl_in ''planning''))))
     = WellTyped
        \<lparr> currentPhase = ''plan_review'', taskDescription = ''Add auth'',
          outputs = [(''planner'', ''plan v2'')],
          history =
            [\<lparr> phase = ''planning'', action = ''output_saved'',
               timestamp = ''2026-01-01T12:00:00.000Z'', detail = Some ''Agent: planner'' \<rparr>,
             \<lparr> phase = ''plan_review'', action = ''entered'',
               timestamp = ''2026-01-01T12:00:00.000Z'',
               detail = Some ''Awaiting review for planner'' \<rparr>],
          createdAt = ''2026-01-01T11:00:00.000Z'', updatedAt = ''2026-01-01T12:00:00.000Z'' \<rparr>
   \<and> loadState noon (projr (pipeline_save_output noon ''planner'' ''plan v2''
                                (disk (ctl_in ''planning''))))
     = WellTyped
        \<lparr> currentPhase = ''plan_review'', taskDescription = ''Add auth'',
          outputs = [(''planner'', ''plan v2'')],
          history =
            [\<lparr> phase = ''planning'', action = ''output_saved'',
               timestamp = ''2026-01-01T12:00:00.000Z'',
               detail = Some ''Agent planner saved output'' \<rparr>,
             \<lparr> phase = ''plan_review'', action = ''entered'',
               timestamp = ''2026-01-01T12:00:00.000Z'',
               detail = Some ''Transitioned after planner output'' \<rparr>],
          createdAt = ''2026-01-01T11:00:00.000Z'', updatedAt = ''2026-01-01T12:00:00.000Z'' \<rparr>
   \<and> loadState noon (disk (snd (saveCurrentOutput noon ''plan v2'' (ctl_in ''planning''))))
     \<noteq> loadState noon (projr (pipeline_save_output noon ''planner'' ''plan v2''
                                (disk (ctl_in ''planning''))))"
proof -
  have 1: "loadState noon (disk (snd (saveCurrentOutput noon ''plan v2'' (ctl_in ''planning''))))
     = WellTyped
        \<lparr> currentPhase = ''plan_review'', taskDescription = ''Add auth'',
          outputs = [(''planner'', ''plan v2'')],
          history =
            [\<lparr> phase = ''planning'', action = ''output_saved'',
               timestamp = ''2026-01-01T12:00:00.000Z'', detail = Some ''Agent: planner'' \<rparr>,
             \<lparr> phase = ''plan_review'', action = ''entered'',
               timestamp = ''2026-01-01T12:00:00.000Z'',
               detail = Some ''Awaiting review for planner'' \<rparr>],
          createdAt = ''2026-01-01T11:00:00.000Z'', updatedAt = ''2026-01-01T12:00:00.000Z'' \<rparr>"
    by (simp add: saveCurrentOutput_def Let_def ctl_in_phase getAgentForPhase_Some
        loadState_persist persist_state addHistory_def ctl_in_state planner_def js_set_def
        js_assign_def noon_def)
  have 2: "loadState noon (projr (pipeline_save_output noon ''planner'' ''plan v2''
                                (disk (ctl_in ''planning''))))
     = WellTyped
        \<lparr> currentPhase = ''plan_review'', taskDescription = ''Add auth'',
          outputs = [(''planner'', ''plan v2'')],
          history =
            [\<lparr> phase = ''planning'', action = ''output_saved'',
               timestamp = ''2026-01-01T12:00:00.000Z'',
               detail = Some ''Agent planner saved output'' \<rparr>,
             \<lparr> phase = ''plan_review'', action = ''entered'',
               timestamp = ''2026-01-01T12:00:00.000Z'',
               detail = Some ''Transitioned after planner output'' \<rparr>],
          createdAt = ''2026-01-01T11:00:00.000Z'', updatedAt = ''2026-01-01T12:00:00.000Z'' \<rparr>"
    by (simp add: pipeline_save_output_def mcp_loadState_persisted [OF ctl_in_persisted]
        Let_def js_get_def phaseMap_def loadState_mcp_saveState ctl_in_state js_set_def
        js_assign_def noon_def)
  show ?thesis
    unfolding 1 2 by simp
qed

text \<open>
  Claim C1, amended: let the controller's in-memory state be the stored one and let its
  current phase be the work phase of agent \<open>a\<close> (one of planner, implementer, reviewer,
  test). Then \<open>saveCurrentOutput\<close> with content \<open>c\<close> and \<open>pipeline_save_output\<close> with
  \<open>(a, c)\<close>, run against the same clock, both succeed and leave the same output files and
  stored states that agree in \<open>currentPhase\<close> (the review phase of \<open>a\<close>), \<open>outputs\<close>,
  \<open>taskDescription\<close>, \<open>createdAt\<close> and \<open>updatedAt\<close>; both append two history entries with
  the same \<open>phase\<close>, \<open>action\<close> and \<open>timestamp\<close>, which differ only in their \<open>detail\<close>
  text. The controller's in-memory state is the one it stored.
\<close>

theorem save_output_paths_agree:
  assumes persisted: "stateFile (disk c) = Some (Readable (JSON_stringify (json_of_state (state c))))"
    and active: "getAgentForPhase (currentPhase (state c)) = Some agent"
  shows "fst (saveCurrentOutput clk content c) = Returned
    \<and> \<not> isl (pipeline_save_output clk (name agent) content (disk c))
    \<and> outputsDir (projr (pipeline_save_output clk (name agent) content (disk c)))
        = outputsDir (disk (snd (saveCurrentOutput clk content c)))
    \<and> loadState clk' (disk (snd (saveCurrentOutput clk content c)))
        = WellTyped (state (snd (saveCurrentOutput clk content c)))
    \<and> state (snd (saveCurrentOutput clk content c))
        = (state c)\<lparr> outputs := js_set (outputs (state c)) (name agent) content,
             currentPhase := reviewPhase agent,
             history := history (state c) @
               [\<lparr> phase = currentPhase (state c), action = ''output_saved'',
                  timestamp = clk 0, detail = Some (''Agent: '' @ name agent) \<rparr>,
                \<lparr> phase = reviewPhase agent, action = ''entered'',
                  timestamp = clk 1, detail = Some (''Awaiting review for '' @ name agent) \<rparr>],
             updatedAt := clk 2 \<rparr>
    \<and> loadState clk' (projr (pipeline_save_output clk (name agent) content (disk c)))
        = WellTyped ((state c)\<lparr> outputs := js_set (outputs (state c)) (name agent) content,
             currentPhase := reviewPhase agent,
             history := history (state c) @
               [\<lparr> phase = currentPhase (state c), action = ''output_saved'',
                  timestamp = clk 0, detail = Some (''Agent '' @ name agent @ '' saved output'') \<rparr>,
                \<lparr> phase = reviewPhase agent, action = ''entered'',
                  timestamp = clk 1,
                  detail = Some (''Transitioned after '' @ name agent @ '' output'') \<rparr>],
             updatedAt := clk 2 \<rparr>)"
proof -
  note af = agent_facts [OF active]
  have ctl: "saveCurrentOutput clk content c =
      (Returned, persist (clk 2)
         \<lparr> state = (state c)\<lparr> outputs := js_set (outputs (state c)) (name agent) content,
             currentPhase := reviewPhase agent,
             history := history (state c) @
               [\<lparr> phase = currentPhase (state c), action = ''output_saved'',
                  timestamp = clk 0, detail = Some (''Agent: '' @ name agent) \<rparr>,
                \<lparr> phase = reviewPhase agent, action = ''entered'',
                  timestamp = clk 1, detail = Some (''Awaiting review for '' @ name agent) \<rparr>] \<rparr>,
           disk = saveAgentOutput (disk c) (name agent) content \<rparr>)"
    using active af(1) by (simp add: saveCurrentOutput_def Let_def addHistory_def)
  have mcp: "pipeline_save_output clk (name agent) content (disk c) =
      Inr (mcp_saveState (clk 2) (saveAgentOutput (disk c) (name agent) content)
         ((state c)\<lparr> outputs := js_set (outputs (state c)) (name agent) content,
             currentPhase := reviewPhase agent,
             history := history (state c) @
               [\<lparr> phase = currentPhase (state c), action = ''output_saved'',
                  timestamp = clk 0, detail = Some (''Agent '' @ name agent @ '' saved output'') \<rparr>,
                \<lparr> phase = reviewPhase agent, action = ''entered'',
                  timestamp = clk 1,
                  detail = Some (''Transitioned after '' @ name agent @ '' output'') \<rparr>] \<rparr>))"
    using af(2,3)
    by (simp add: pipeline_save_output_def mcp_loadState_persisted [OF persisted] Let_def
        saveAgentOutput_def ensureDirs_eq numeral_2_eq_2)
  show ?thesis
    unfolding ctl mcp
    by (simp add: loadState_mcp_saveState loadState_persist persist_state
        persist_outputsDir outputsDir_mcp_saveState)
qed

theorem save_output_paths_agree_witness:
  "stateFile (disk (ctl_in ''planning''))
     = Some (Readable (JSON_stringify (json_of_state (state (ctl_in ''planning'')))))
   \<and> getAgentForPhase (currentPhase (state (ctl_in ''planning''))) = Some planner
   \<and> fst (saveCurrentOutput noon ''plan v2'' (ctl_in ''planning'')) = Returned
   \<and> \<not> isl (pipeline_save_output noon ''planner'' ''plan v2'' (disk (ctl_in ''planning'')))
   \<and> outputsDir (projr (pipeline_save_output noon ''planner'' ''plan v2''
                            (disk (ctl_in ''planning''))))
       = outputsDir (disk (snd (saveCurrentOutput noon ''plan v2'' (ctl_in ''planning''))))"
proof -
  have a: "stateFile (disk (ctl_in ''planning''))
     = Some (Readable (JSON_stringify (json_of_state (state (ctl_in ''planning'')))))"
    by (simp add: ctl_in_def Let_def)
  have b: "getAgentForPhase (currentPhase (state (ctl_in ''planning''))) = Some planner"
    by (simp add: ctl_in_phase getAgentForPhase_Some)
  have c: "name planner = ''planner''"
    by (simp add: planner_def)
  from save_output_paths_agree [OF a b, of noon "''plan v2''"] a b c show ?thesis
    by simp
qed

lemma phaseMap_lookup:
  "js_get phaseMap ''planner'' = Own ''plan_review''"
  "js_get phaseMap ''implementer'' = Own ''impl_review''"
  "js_get phaseMap ''reviewer'' = Own ''review_done''"
  "js_get phaseMap ''test'' = Own ''completed''"
  "a \<notin> set [''planner'', ''implementer'', ''reviewer'', ''test''] \<Longrightarrow>
     a \<notin> set Object_prototype \<Longrightarrow> js_get phaseMap a = Undefined"
  "a \<in> set Object_prototype \<Longrightarrow> js_get phaseMap a = Inherited a"
  by (auto simp: js_get_def phaseMap_def Object_prototype_def)

text \<open>
  What the tool does for the other names, given a stored state (or none): for a name with
  an own entry in \<open>phaseMap\<close> (the four agents) it succeeds in every phase and moves to
  that entry; for a path component that \<open>phaseMap\<close> reads as \<^verbatim>\<open>undefined\<close> it records the
  output and one history entry and keeps the phase.
\<close>

lemma pipeline_save_output_known_names:
  assumes "mcp_loadState clk fs = (WellTyped s, n)"
  shows "(js_get phaseMap a = Own p \<longrightarrow>
            \<not> isl (pipeline_save_output clk a out fs)
            \<and> loadState clk' (projr (pipeline_save_output clk a out fs))
              = WellTyped (s\<lparr> outputs := js_set (outputs s) a out,
                    currentPhase := p,
                    history := history s @
                      [\<lparr> phase = currentPhase s, action = ''output_saved'', timestamp = clk n,
                         detail = Some (''Agent '' @ a @ '' saved output'') \<rparr>,
                       \<lparr> phase = p, action = ''entered'', timestamp = clk (n + 1),
                         detail = Some (''Transitioned after '' @ a @ '' output'') \<rparr>],
                    updatedAt := clk (n + 2) \<rparr>))
       \<and> (js_get phaseMap a = Undefined \<and> path_component a \<longrightarrow>
            \<not> isl (pipeline_save_output clk a out fs)
            \<and> loadState clk' (projr (pipeline_save_output clk a out fs))
              = WellTyped (s\<lparr> outputs := js_set (outputs s) a out,
                    history := history s @
                      [\<lparr> phase = currentPhase s, action = ''output_saved'', timestamp = clk n,
                         detail = Some (''Agent '' @ a @ '' saved output'') \<rparr>],
                    updatedAt := clk (n + 1) \<rparr>))"
proof -
  have "js_get phaseMap a = Own p \<Longrightarrow> p \<noteq> []"
    by (auto simp: js_get_def phaseMap_def split: if_splits)
  then show ?thesis
    using assms
    by (auto simp: pipeline_save_output_def Let_def loadState_mcp_saveState)
qed

text \<open>
  Claim C10 concerns \<open>pipeline_save_output\<close> for names outside the four agents: the output
  and one history entry are recorded and \<open>currentPhase\<close> is left unchanged. The code
  guards the transition with \<^verbatim>\<open>if (nextPhase)\<close>, but \<^verbatim>\<open>phaseMap["constructor"]\<close> is the
  inherited function \<^verbatim>\<open>Object\<close>, which is truthy: for the agent name \<open>constructor\<close> the
  tool appends a second history entry and overwrites \<open>currentPhase\<close> with that function,
  so the record written has no \<open>currentPhase\<close> member at all (and the second entry no
  \<open>phase\<close>). The evaluation below is the tool at that input, in phase \<open>planning\<close>.
\<close>

theorem pipeline_save_output_constructor:
  "\<not> isl (pipeline_save_output noon ''constructor'' ''text'' (disk (ctl_in ''planning'')))
   \<and> loadState noon (projr (pipeline_save_output noon ''constructor'' ''text''
                                (disk (ctl_in ''planning''))))
     = IllTyped (JObj
         [(''taskDescription'', JStr ''Add auth''),
          (''outputs'', JObj [(''planner'', JStr ''plan text''), (''constructor'', JStr ''text'')]),
          (''history'', JArr
             [JObj [(''phase'', JStr ''planning''), (''action'', JStr ''output_saved''),
                    (''timestamp'', JStr ''2026-01-01T12:00:00.000Z''),
                    (''detail'', JStr ''Agent constructor saved output'')],
              JObj [(''action'', JStr ''entered''),
                    (''timestamp'', JStr ''2026-01-01T12:00:00.000Z''),
                    (''detail'', JStr ''Transitioned after constructor output'')]]),
          (''createdAt'', JStr ''2026-01-01T11:00:00.000Z''),
          (''updatedAt'', JStr ''2026-01-01T12:00:00.000Z'')])"
  by (simp add: pipeline_save_output_def mcp_loadState_persisted [OF ctl_in_persisted]
      Let_def js_get_def phaseMap_def Object_prototype_def ctl_in_state js_set_def noon_def
      json_of_inherited_def mcp_writeState_def record_json_def entry_json_def json_of_entry_def
      loadState_def readFileSync_def JSON_parse_def JSON_stringify_def as_PipelineState_def
      state_of_json_def has_members_def js_assign_def array_index_def digit_of_def)

end
